theory Spec2Isabelle
  imports Complex_Main "HOL-Library.Word"
begin

section \<open>Python values\<close>

text \<open>
  The handlers receive the parsed JSON body of a request. A Python \<open>str\<close> is modelled as a
  list of HOL characters, each standing for one code point below 256; a JSON number is an
  \<open>int\<close> or a \<open>float\<close>, and a float is represented by its exact value.
\<close>

datatype pyfloat = Finite rat | Infinite | NaN

datatype json =
    JNull
  | JBool bool
  | JInt int
  | JFloat pyfloat
  | JStr string
  | JArr "json list"
  | JObj "(string \<times> json) list"

datatype pyexn =
  TypeError | ValueError | OverflowError | AttributeError | InvalidId | DuplicateKeyError

text \<open>Python's truth value of an object, as \<open>not x\<close> tests it.\<close>

fun truthy :: "json \<Rightarrow> bool" where
  "truthy JNull = False"
| "truthy (JBool b) = b"
| "truthy (JInt n) = (n \<noteq> 0)"
| "truthy (JFloat f) = (f \<noteq> Finite 0)"
| "truthy (JStr s) = (s \<noteq> [])"
| "truthy (JArr xs) = (xs \<noteq> [])"
| "truthy (JObj kvs) = (kvs \<noteq> [])"

text \<open>Character ranges, by code point.\<close>

definition in_range :: "char \<Rightarrow> char \<Rightarrow> char \<Rightarrow> bool" where
  "in_range lo hi c = ((of_char lo :: nat) \<le> of_char c \<and> (of_char c :: nat) \<le> of_char hi)"

definition is_digit :: "char \<Rightarrow> bool" where
  "is_digit c = in_range CHR ''0'' CHR ''9'' c"

definition digit_val :: "char \<Rightarrow> nat" where
  "digit_val c = of_char c - of_char CHR ''0''"

text \<open>
  \<open>str.strip()\<close> removes the characters for which \<open>str.isspace()\<close> holds; below 256 these
  are U+0009..U+000D, U+001C..U+0020, U+0085 and U+00A0.
\<close>

definition isspace :: "char \<Rightarrow> bool" where
  "isspace c = (in_range (CHR 0x09) (CHR 0x0D) c \<or> in_range (CHR 0x1C) (CHR 0x20) c
     \<or> c = CHR 0x85 \<or> c = CHR 0xA0)"

definition strip :: "string \<Rightarrow> string" where
  "strip s = rev (dropWhile isspace (rev (dropWhile isspace s)))"

section \<open>Regular expressions of the validators\<close>

text \<open>
  The fragment of Python's \<open>re\<close> syntax that \<open>utils/validators.py\<close> uses: anchors, character
  classes, literals, sequence, bounded and unbounded repetition, negative lookahead.
  \<open>ends r s t\<close> lists what can remain of the subject \<open>s\<close> after \<open>r\<close> has matched a prefix of
  its suffix \<open>t\<close>; \<open>re.fullmatch\<close> asks for a match that leaves nothing.
\<close>

datatype regex =
    Bol
  | Eol
  | Sym "char \<Rightarrow> bool"
  | Lit string
  | Seq regex regex
  | Rep regex nat nat
  | Star regex
  | NotAhead regex

fun rep :: "(string \<Rightarrow> string list) \<Rightarrow> nat \<Rightarrow> nat \<Rightarrow> string \<Rightarrow> string list" where
  "rep f m 0 t = (if m = 0 then [t] else [])"
| "rep f m (Suc n) t = (if m = 0 then [t] else []) @ concat (map (rep f (m - 1) n) (f t))"

primrec ends :: "regex \<Rightarrow> string \<Rightarrow> string \<Rightarrow> string list" where
  "ends Bol s t = (if length t = length s then [t] else [])"
| "ends Eol s t = (if t = [] \<or> t = [CHR 0x0A] then [t] else [])"
| "ends (Sym p) s t = (case t of [] \<Rightarrow> [] | c # cs \<Rightarrow> if p c then [cs] else [])"
| "ends (Lit w) s t = (if take (length w) t = w then [drop (length w) t] else [])"
| "ends (Seq a b) s t = concat (map (ends b s) (ends a s t))"
| "ends (Rep r m n) s t = rep (ends r s) m n t"
| "ends (Star r) s t = rep (ends r s) 0 (length t) t"
| "ends (NotAhead r) s t = (if ends r s t = [] then [t] else [])"

definition fullmatch :: "regex \<Rightarrow> string \<Rightarrow> bool" where
  "fullmatch r s = ([] \<in> set (ends r s s))"

text \<open>The classes \<open>[a-zA-Z0-9]\<close>, \<open>[a-zA-Z0-9._%+-]\<close>, \<open>[A-Za-z ]\<close> and \<open>.\<close> (no \<open>DOTALL\<close>).\<close>

definition alnum :: "char \<Rightarrow> bool" where
  "alnum c = (in_range CHR ''a'' CHR ''z'' c \<or> in_range CHR ''A'' CHR ''Z'' c
     \<or> in_range CHR ''0'' CHR ''9'' c)"

definition local_char :: "char \<Rightarrow> bool" where
  "local_char c = (alnum c \<or> c \<in> set ''._%+-'')"

definition letter_or_space :: "char \<Rightarrow> bool" where
  "letter_or_space c = (in_range CHR ''A'' CHR ''Z'' c \<or> in_range CHR ''a'' CHR ''z'' c
     \<or> c = CHR '' '')"

definition dot :: "char \<Rightarrow> bool" where
  "dot c = (c \<noteq> CHR 0x0A)"

section \<open>utils/validators.py\<close>

text \<open>
  \<^verbatim>\<open>^(?!.*\.\.)[a-zA-Z0-9](?:[a-zA-Z0-9._%+-]{4,28})[a-zA-Z0-9]@gmail\.com$\<close>
\<close>

definition email_pattern :: regex where
  "email_pattern =
     Seq Bol
    (Seq (NotAhead (Seq (Star (Sym dot)) (Lit ''..'')))
    (Seq (Sym alnum)
    (Seq (Rep (Sym local_char) 4 28)
    (Seq (Sym alnum)
    (Seq (Lit ''@gmail.com'') Eol)))))"

definition validate_email_format :: "string \<Rightarrow> bool" where
  "validate_email_format email = fullmatch email_pattern email"

text \<open>\<^verbatim>\<open>[A-Za-z ]{2,50}\<close>, used by \<open>validate_name\<close> and \<open>validate_text_field\<close> alike.\<close>

definition text_pattern :: regex where
  "text_pattern = Rep (Sym letter_or_space) 2 50"

definition validate_name :: "string \<Rightarrow> bool" where
  "validate_name name = fullmatch text_pattern name"

definition validate_text_field :: "string \<Rightarrow> bool" where
  "validate_text_field v = fullmatch text_pattern v"

text \<open>\<open>validate_password\<close>: \<open>len(password) >= 6\<close>; \<open>len\<close> raises on a number or a boolean.\<close>

fun validate_password :: "json \<Rightarrow> pyexn + bool" where
  "validate_password (JStr s) = Inr (6 \<le> length s)"
| "validate_password (JArr xs) = Inr (6 \<le> length xs)"
| "validate_password (JObj kvs) = Inr (6 \<le> length kvs)"
| "validate_password _ = Inl TypeError"

subsection \<open>\<open>int(salary)\<close>\<close>

text \<open>
  \<open>int\<close> of a string skips surrounding whitespace (U+0009..U+000D, U+0020, U+0085 and
  U+00A0 among the code points below 256), takes an optional sign and then decimal digits
  that single underscores may separate.
\<close>

definition int_space :: "char \<Rightarrow> bool" where
  "int_space c = (in_range (CHR 0x09) (CHR 0x0D) c \<or> c = CHR 0x20 \<or> c = CHR 0x85 \<or> c = CHR 0xA0)"

fun int_digits :: "nat \<Rightarrow> string \<Rightarrow> nat option" where
  "int_digits acc [] = Some acc"
| "int_digits acc (c # cs) =
     (if is_digit c then int_digits (10 * acc + digit_val c) cs
      else if c = CHR ''_'' then
        (case cs of
           [] \<Rightarrow> None
         | d # ds \<Rightarrow> if is_digit d then int_digits (10 * acc + digit_val d) ds else None)
      else None)"

definition int_unsigned :: "string \<Rightarrow> nat option" where
  "int_unsigned s = (case s of [] \<Rightarrow> None
     | c # cs \<Rightarrow> if is_digit c then int_digits (digit_val c) cs else None)"

definition int_of_str :: "string \<Rightarrow> int option" where
  "int_of_str s =
     (case rev (dropWhile int_space (rev (dropWhile int_space s))) of
        [] \<Rightarrow> None
      | c # cs \<Rightarrow>
          if c = CHR ''-'' then map_option (\<lambda>n. - int n) (int_unsigned cs)
          else if c = CHR ''+'' then map_option int (int_unsigned cs)
          else map_option int (int_unsigned (c # cs)))"

fun py_int :: "json \<Rightarrow> pyexn + int" where
  "py_int JNull = Inl TypeError"
| "py_int (JBool b) = Inr (if b then 1 else 0)"
| "py_int (JInt n) = Inr n"
| "py_int (JFloat (Finite q)) = Inr (if 0 \<le> q then \<lfloor>q\<rfloor> else \<lceil>q\<rceil>)"
| "py_int (JFloat Infinite) = Inl OverflowError"
| "py_int (JFloat NaN) = Inl ValueError"
| "py_int (JStr s) = (case int_of_str s of None \<Rightarrow> Inl ValueError | Some n \<Rightarrow> Inr n)"
| "py_int (JArr xs) = Inl TypeError"
| "py_int (JObj kvs) = Inl TypeError"

text \<open>
  \<^verbatim>\<open>
  def validate_salary(salary):
      try:
          salary = int(salary)
          return salary > 0
      except:
          return False
  \<close>
\<close>

definition validate_salary :: "json \<Rightarrow> bool" where
  "validate_salary salary = (case py_int salary of Inl e \<Rightarrow> False | Inr n \<Rightarrow> 0 < n)"

section \<open>The wording of the specification, for comparison\<close>

text \<open>
  The address rule as the specification words it: the local part is what precedes the
  first \<open>@\<close>, the domain what follows it.
\<close>

definition local_part :: "string \<Rightarrow> string" where
  "local_part s = takeWhile (\<lambda>c. c \<noteq> CHR ''@'') s"

definition domain_part :: "string \<Rightarrow> string" where
  "domain_part s = drop 1 (dropWhile (\<lambda>c. c \<noteq> CHR ''@'') s)"

fun consecutive_dots :: "string \<Rightarrow> bool" where
  "consecutive_dots [] = False"
| "consecutive_dots [c] = False"
| "consecutive_dots (c # d # cs) = ((c = CHR ''.'' \<and> d = CHR ''.'') \<or> consecutive_dots (d # cs))"

definition email_spec :: "string \<Rightarrow> bool" where
  "email_spec s = (let l = local_part s in
     6 \<le> length l \<and> length l \<le> 30 \<and> alnum (hd l) \<and> alnum (last l)
     \<and> list_all local_char (butlast (tl l)) \<and> \<not> consecutive_dots l
     \<and> domain_part s = ''gmail.com'')"

section \<open>ObjectId\<close>

text \<open>
  A BSON ObjectId is twelve bytes. \<open>ObjectId(s)\<close> takes a string of 24 hexadecimal digits
  of either case and raises \<open>InvalidId\<close> on any other string (the documented contract of
  the \<open>bson\<close> package); \<open>str\<close> renders the twelve bytes as 24 lower-case digits.
\<close>

type_synonym objectid = "96 word"

definition is_hex :: "char \<Rightarrow> bool" where
  "is_hex c = (in_range CHR ''0'' CHR ''9'' c \<or> in_range CHR ''a'' CHR ''f'' c
     \<or> in_range CHR ''A'' CHR ''F'' c)"

definition hex_val :: "char \<Rightarrow> nat" where
  "hex_val c = (if in_range CHR ''0'' CHR ''9'' c then of_char c - of_char CHR ''0''
     else if in_range CHR ''a'' CHR ''f'' c then of_char c - of_char CHR ''a'' + 10
     else of_char c - of_char CHR ''A'' + 10)"

definition hex_to_nat :: "string \<Rightarrow> nat" where
  "hex_to_nat s = foldl (\<lambda>a c. 16 * a + hex_val c) 0 s"

definition hex_char :: "nat \<Rightarrow> char" where
  "hex_char n = ''0123456789abcdef'' ! n"

fun to_hex :: "nat \<Rightarrow> nat \<Rightarrow> string" where
  "to_hex 0 n = []"
| "to_hex (Suc k) n = to_hex k (n div 16) @ [hex_char (n mod 16)]"

definition ObjectId :: "string \<Rightarrow> pyexn + objectid" where
  "ObjectId s = (if length s = 24 \<and> list_all is_hex s then Inr (word_of_nat (hex_to_nat s))
     else Inl InvalidId)"

definition str_ObjectId :: "objectid \<Rightarrow> string" where
  "str_ObjectId oid = to_hex 24 (unat oid)"


section \<open>The document store\<close>

text \<open>
  The two collections of \<open>mongo.db\<close>, each a list of documents in the store's natural
  order. A user document holds whatever truthy JSON value was sent as the name; the
  password field holds the bytes that \<open>bcrypt.hashpw\<close> returned.
\<close>

record user =
  usr_id :: objectid
  usr_name :: json
  usr_email :: string
  usr_password :: string

record 'i employee =
  emp_id :: 'i
  emp_name :: string
  emp_email :: string
  emp_department :: string
  emp_designation :: string
  emp_salary :: int
  emp_createdBy :: string

record db =
  users :: "user list"
  employees :: "objectid employee list"

text \<open>
  \<open>find_one\<close> returns the first document that satisfies the filter. \<open>insert_one\<close> appends
  the document; the store refuses a second document with the same \<open>_id\<close>. \<open>update_one\<close>
  and \<open>delete_one\<close> act on the first match and report \<open>matched_count\<close> and
  \<open>deleted_count\<close>.
\<close>

definition find_one :: "('a \<Rightarrow> bool) \<Rightarrow> 'a list \<Rightarrow> 'a option" where
  "find_one flt coll = List.find flt coll"

definition insert_one :: "('a \<Rightarrow> objectid) \<Rightarrow> 'a \<Rightarrow> 'a list \<Rightarrow> pyexn + 'a list" where
  "insert_one idf doc coll =
     (if idf doc \<in> set (map idf coll) then Inl DuplicateKeyError else Inr (coll @ [doc]))"

fun update_one :: "('a \<Rightarrow> bool) \<Rightarrow> ('a \<Rightarrow> 'a) \<Rightarrow> 'a list \<Rightarrow> nat \<times> 'a list" where
  "update_one flt upd [] = (0, [])"
| "update_one flt upd (x # xs) =
     (if flt x then (1, upd x # xs)
      else (case update_one flt upd xs of (n, ys) \<Rightarrow> (n, x # ys)))"

fun delete_one :: "('a \<Rightarrow> bool) \<Rightarrow> 'a list \<Rightarrow> nat \<times> 'a list" where
  "delete_one flt [] = (0, [])"
| "delete_one flt (x # xs) =
     (if flt x then (1, xs)
      else (case delete_one flt xs of (n, ys) \<Rightarrow> (n, x # ys)))"

section \<open>Responses\<close>

text \<open>
  A handler either returns a status code with a JSON body, or lets an exception escape.
  The bodies are \<open>{"error": m}\<close>, \<open>{"message": m}\<close>, \<open>{"token": t, "name": n}\<close> and the
  list of employees with their identifiers rendered as strings.
\<close>

datatype body =
    Error string
  | Message string
  | Token string json
  | Employees "string employee list"

datatype outcome = Raised pyexn | Returned nat body

text \<open>\<open>data.get(key, default)\<close> on a dictionary.\<close>

definition dict_get :: "(string \<times> json) list \<Rightarrow> string \<Rightarrow> json \<Rightarrow> json" where
  "dict_get kvs k dflt = (case map_of kvs k of None \<Rightarrow> dflt | Some v \<Rightarrow> v)"

section \<open>routes/auth.py\<close>

text \<open>
  \<open>register\<close>. The parameters stand for what the surroundings supply: \<open>hashpw pw salt\<close> for
  \<open>bcrypt.hashpw(pw.encode(), salt)\<close>, \<open>salt\<close> for the value of \<open>bcrypt.gensalt()\<close>, and
  \<open>oid\<close> for the identifier that the driver gives the new document.
\<close>

definition register ::
  "(string \<Rightarrow> string \<Rightarrow> string) \<Rightarrow> string \<Rightarrow> objectid \<Rightarrow> json \<Rightarrow> db \<Rightarrow> outcome \<times> db" where
  "register hashpw salt oid data d =
     (case data of
        JObj kvs \<Rightarrow>
          (let name = dict_get kvs ''name'' JNull;
               email = dict_get kvs ''email'' JNull;
               password = dict_get kvs ''password'' JNull
           in if \<not> truthy name \<or> \<not> truthy email \<or> \<not> truthy password
              then (Returned 400 (Error ''All fields required''), d)
              else (case email of
                JStr e \<Rightarrow>
                  if \<not> validate_email_format e
                  then (Returned 400 (Error ''Invalid email format''), d)
                  else (case validate_password password of
                    Inl x \<Rightarrow> (Raised x, d)
                  | Inr ok \<Rightarrow>
                      if \<not> ok then (Returned 400 (Error ''Password must be 6+ chars''), d)
                      else if find_one (\<lambda>u. usr_email u = e) (users d) \<noteq> None
                      then (Returned 400 (Error ''Email already exists''), d)
                      else (case password of
                        JStr pw \<Rightarrow>
                          (case insert_one usr_id
                                  \<lparr>usr_id = oid, usr_name = name, usr_email = e,
                                   usr_password = hashpw pw salt\<rparr> (users d) of
                             Inl x \<Rightarrow> (Raised x, d)
                           | Inr us \<Rightarrow>
                               (Returned 201 (Message ''Registered Successfully''),
                                d\<lparr>users := us\<rparr>))
                      | _ \<Rightarrow> (Raised AttributeError, d)))
              | _ \<Rightarrow> (Raised TypeError, d)))
      | _ \<Rightarrow> (Raised AttributeError, d))"

text \<open>
  \<open>login\<close>. \<open>checkpw pw h\<close> stands for \<open>bcrypt.checkpw(pw.encode(), h)\<close> and \<open>create_access_token\<close>
  for the function of that name. The e-mail of the request is not validated before it is
  used as a query; how the store matches a criterion that is not a string is the parameter
  \<open>qmatch\<close>.
\<close>

definition email_filter :: "(json \<Rightarrow> user \<Rightarrow> bool) \<Rightarrow> json \<Rightarrow> user \<Rightarrow> bool" where
  "email_filter qmatch email u = (case email of JStr e \<Rightarrow> usr_email u = e | _ \<Rightarrow> qmatch email u)"

definition login ::
  "(json \<Rightarrow> user \<Rightarrow> bool) \<Rightarrow> (string \<Rightarrow> string \<Rightarrow> bool) \<Rightarrow> (string \<Rightarrow> string)
     \<Rightarrow> json \<Rightarrow> db \<Rightarrow> outcome \<times> db" where
  "login qmatch checkpw create_access_token data d =
     (case data of
        JObj kvs \<Rightarrow>
          (let email = dict_get kvs ''email'' JNull;
               password = dict_get kvs ''password'' JNull
           in if \<not> truthy email \<or> \<not> truthy password
              then (Returned 400 (Error ''All fields required''), d)
              else (case find_one (email_filter qmatch email) (users d) of
                None \<Rightarrow> (Returned 400 (Error ''Invalid credentials''), d)
              | Some u \<Rightarrow>
                  (case password of
                     JStr pw \<Rightarrow>
                       if \<not> checkpw pw (usr_password u)
                       then (Returned 400 (Error ''Invalid credentials''), d)
                       else (Returned 200
                               (Token (create_access_token (str_ObjectId (usr_id u))) (usr_name u)), d)
                   | _ \<Rightarrow> (Raised AttributeError, d))))
      | _ \<Rightarrow> (Raised AttributeError, d))"

section \<open>routes/employee.py\<close>

text \<open>
  Every handler here runs behind \<open>@jwt_required()\<close>; \<open>user_id\<close> is the value of
  \<open>get_jwt_identity()\<close>. \<open>create_employee\<close> and \<open>update_employee\<close> begin with the same
  lines: the four text fields are read with the default \<open>""\<close> and stripped (which raises
  on a value that is not a string), the salary is read as it is, and the five validators
  run in order.
\<close>

record fields =
  f_name :: string
  f_email :: string
  f_department :: string
  f_designation :: string
  f_salary :: json

definition get_strip :: "(string \<times> json) list \<Rightarrow> string \<Rightarrow> pyexn + string" where
  "get_strip kvs k = (case dict_get kvs k (JStr []) of JStr s \<Rightarrow> Inr (strip s) | _ \<Rightarrow> Inl AttributeError)"

definition extract_fields :: "json \<Rightarrow> pyexn + fields" where
  "extract_fields data =
     (case data of
        JObj kvs \<Rightarrow>
          (case get_strip kvs ''name'' of Inl x \<Rightarrow> Inl x | Inr name \<Rightarrow>
          (case get_strip kvs ''email'' of Inl x \<Rightarrow> Inl x | Inr email \<Rightarrow>
          (case get_strip kvs ''department'' of Inl x \<Rightarrow> Inl x | Inr department \<Rightarrow>
          (case get_strip kvs ''designation'' of Inl x \<Rightarrow> Inl x | Inr designation \<Rightarrow>
             Inr \<lparr>f_name = name, f_email = email, f_department = department,
                  f_designation = designation, f_salary = dict_get kvs ''salary'' JNull\<rparr>))))
      | _ \<Rightarrow> Inl AttributeError)"

definition validate_fields :: "fields \<Rightarrow> string option" where
  "validate_fields f =
     (if \<not> validate_name (f_name f) then Some ''Invalid Name''
      else if \<not> validate_email_format (f_email f) then Some ''Invalid Email''
      else if \<not> validate_text_field (f_department f) then Some ''Invalid Department''
      else if \<not> validate_text_field (f_designation f) then Some ''Invalid Role''
      else if \<not> validate_salary (f_salary f) then Some ''Invalid Salary''
      else None)"

definition create_employee :: "string \<Rightarrow> objectid \<Rightarrow> json \<Rightarrow> db \<Rightarrow> outcome \<times> db" where
  "create_employee user_id oid data d =
     (case extract_fields data of
        Inl x \<Rightarrow> (Raised x, d)
      | Inr f \<Rightarrow>
          (case validate_fields f of
             Some msg \<Rightarrow> (Returned 400 (Error msg), d)
           | None \<Rightarrow>
               if find_one (\<lambda>e. emp_email e = f_email f \<and> emp_createdBy e = user_id)
                    (employees d) \<noteq> None
               then (Returned 400 (Error ''Email already exists''), d)
               else (case py_int (f_salary f) of
                  Inl x \<Rightarrow> (Raised x, d)
                | Inr n \<Rightarrow>
                    (case insert_one emp_id
                            \<lparr>emp_id = oid, emp_name = f_name f, emp_email = f_email f,
                             emp_department = f_department f,
                             emp_designation = f_designation f,
                             emp_salary = n, emp_createdBy = user_id\<rparr> (employees d) of
                       Inl x \<Rightarrow> (Raised x, d)
                     | Inr es \<Rightarrow>
                         (Returned 201 (Message ''Employee Added''), d\<lparr>employees := es\<rparr>)))))"

definition serialize :: "objectid employee \<Rightarrow> string employee" where
  "serialize e =
     \<lparr>emp_id = str_ObjectId (emp_id e), emp_name = emp_name e, emp_email = emp_email e,
      emp_department = emp_department e, emp_designation = emp_designation e,
      emp_salary = emp_salary e, emp_createdBy = emp_createdBy e\<rparr>"

definition get_employees :: "string \<Rightarrow> db \<Rightarrow> outcome \<times> db" where
  "get_employees user_id d =
     (Returned 200
        (Employees (map serialize (filter (\<lambda>e. emp_createdBy e = user_id) (employees d)))), d)"

text \<open>The \<open>$set\<close> document of \<open>update_employee\<close>: the five fields are replaced.\<close>

definition set_fields :: "fields \<Rightarrow> int \<Rightarrow> objectid employee \<Rightarrow> objectid employee" where
  "set_fields f n e =
     e\<lparr>emp_name := f_name f, emp_email := f_email f, emp_department := f_department f,
       emp_designation := f_designation f, emp_salary := n\<rparr>"

definition update_employee :: "string \<Rightarrow> string \<Rightarrow> json \<Rightarrow> db \<Rightarrow> outcome \<times> db" where
  "update_employee user_id ident data d =
     (case extract_fields data of
        Inl x \<Rightarrow> (Raised x, d)
      | Inr f \<Rightarrow>
          (case validate_fields f of
             Some msg \<Rightarrow> (Returned 400 (Error msg), d)
           | None \<Rightarrow>
               (case ObjectId ident of
                  Inl x \<Rightarrow> (Raised x, d)
                | Inr oid \<Rightarrow>
                    if find_one (\<lambda>e. emp_email e = f_email f \<and> emp_createdBy e = user_id
                                      \<and> emp_id e \<noteq> oid) (employees d) \<noteq> None
                    then (Returned 400 (Error ''Email already exists''), d)
                    else (case py_int (f_salary f) of
                       Inl x \<Rightarrow> (Raised x, d)
                     | Inr n \<Rightarrow>
                         (case update_one (\<lambda>e. emp_id e = oid \<and> emp_createdBy e = user_id)
                                 (set_fields f n) (employees d) of
                            (matched_count, es) \<Rightarrow>
                              if matched_count = 0
                              then (Returned 403 (Error ''Not authorized''), d\<lparr>employees := es\<rparr>)
                              else (Returned 200 (Message ''Updated''), d\<lparr>employees := es\<rparr>))))))"

definition delete_employee :: "string \<Rightarrow> string \<Rightarrow> db \<Rightarrow> outcome \<times> db" where
  "delete_employee user_id ident d =
     (case ObjectId ident of
        Inl x \<Rightarrow> (Raised x, d)
      | Inr oid \<Rightarrow>
          (case delete_one (\<lambda>e. emp_id e = oid \<and> emp_createdBy e = user_id) (employees d) of
             (deleted_count, es) \<Rightarrow>
               if deleted_count = 0
               then (Returned 403 (Error ''Not authorized''), d\<lparr>employees := es\<rparr>)
               else (Returned 200 (Message ''Deleted''), d\<lparr>employees := es\<rparr>)))"

section \<open>Reading the claims\<close>

text \<open>An error response is one whose body is \<open>{"error": message}\<close>.\<close>

definition error_response :: "outcome \<Rightarrow> bool" where
  "error_response out = (case out of Returned st (Error m) \<Rightarrow> True | _ \<Rightarrow> False)"

text \<open>
  The error taxonomy of the specification, the class it gives each message of the
  handlers, and the status code it gives each class.
\<close>

datatype error_class = ValidationError | ConflictError | AuthError | ForbiddenError

definition classify :: "string \<Rightarrow> error_class option" where
  "classify m =
     (if m \<in> set [''All fields required'', ''Invalid email format'', ''Password must be 6+ chars'',
                   ''Invalid Name'', ''Invalid Email'', ''Invalid Department'', ''Invalid Role'',
                   ''Invalid Salary''] then Some ValidationError
      else if m = ''Email already exists'' then Some ConflictError
      else if m = ''Invalid credentials'' then Some AuthError
      else if m = ''Not authorized'' then Some ForbiddenError
      else None)"

fun spec_status :: "error_class \<Rightarrow> nat" where
  "spec_status ValidationError = 400"
| "spec_status ConflictError = 400"
| "spec_status AuthError = 401"
| "spec_status ForbiddenError = 403"

text \<open>A well-formed identifier string, as the claims word it: 24 hexadecimal characters.\<close>

definition well_formed_id :: "string \<Rightarrow> bool" where
  "well_formed_id s = (length s = 24 \<and> list_all is_hex s)"

text \<open>
  The invariants of the employees collection: identifiers are unique (the store's own
  guarantee), and so is the pair of e-mail and owner (the data model's invariant).
\<close>

definition ids_unique :: "db \<Rightarrow> bool" where
  "ids_unique d = distinct (map emp_id (employees d))"


text \<open>
  The record that the list should show for a request body, in the words of the
  specification: the four text inputs trimmed, the salary input parsed as an integer.
\<close>

definition shown :: "string \<Rightarrow> string \<Rightarrow> json \<Rightarrow> string employee option" where
  "shown ident user_id data =
     (case data of
        JObj kvs \<Rightarrow>
          (case (dict_get kvs ''name'' (JStr []), dict_get kvs ''email'' (JStr []),
                 dict_get kvs ''department'' (JStr []), dict_get kvs ''designation'' (JStr []),
                 py_int (dict_get kvs ''salary'' JNull)) of
             (JStr nm, JStr em, JStr dp, JStr ds, Inr n) \<Rightarrow>
               Some \<lparr>emp_id = ident, emp_name = strip nm, emp_email = strip em,
                     emp_department = strip dp, emp_designation = strip ds,
                     emp_salary = n, emp_createdBy = user_id\<rparr>
           | _ \<Rightarrow> None)
      | _ \<Rightarrow> None)"

text \<open>The list that \<open>get_employees\<close> sends back.\<close>

definition listed :: "string \<Rightarrow> db \<Rightarrow> string employee list" where
  "listed user_id d =
     (case fst (get_employees user_id d) of Returned st (Employees es) \<Rightarrow> es | _ \<Rightarrow> [])"

section \<open>Example data\<close>

text \<open>
  A store, requests and stand-ins for the functions of the surroundings, on which the
  theorems below are instantiated.
\<close>

definition empty_db :: db where
  "empty_db = \<lparr>users = [], employees = []\<rparr>"

definition demo_hashpw :: "string \<Rightarrow> string \<Rightarrow> string" where
  "demo_hashpw pw salt = salt @ rev pw"

definition demo_checkpw :: "string \<Rightarrow> string \<Rightarrow> bool" where
  "demo_checkpw pw h = (\<exists>salt \<in> set [''s1'', ''s2'']. h = demo_hashpw pw salt)"

definition demo_qmatch :: "json \<Rightarrow> user \<Rightarrow> bool" where
  "demo_qmatch q u = False"

definition demo_token :: "string \<Rightarrow> string" where
  "demo_token ident = ''jwt:'' @ ident"


definition login_body :: "string \<Rightarrow> string \<Rightarrow> json" where
  "login_body e pw = JObj [(''email'', JStr e), (''password'', JStr pw)]"

text \<open>The status code that the handlers give each class, and a response that follows it.\<close>

fun status_in_code :: "error_class \<Rightarrow> nat" where
  "status_in_code ValidationError = 400"
| "status_in_code ConflictError = 400"
| "status_in_code AuthError = 400"
| "status_in_code ForbiddenError = 403"

definition handler_response :: "nat \<Rightarrow> body \<Rightarrow> bool" where
  "handler_response st b = (case b of
      Error m \<Rightarrow> (\<exists>c. classify m = Some c \<and> st = status_in_code c)
    | _ \<Rightarrow> st = 200 \<or> st = 201)"


definition employee_body :: "string \<Rightarrow> string \<Rightarrow> string \<Rightarrow> string \<Rightarrow> json \<Rightarrow> json" where
  "employee_body n e dep des sal =
     JObj [(''name'', JStr n), (''email'', JStr e), (''department'', JStr dep),
           (''designation'', JStr des), (''salary'', sal)]"

text \<open>An employees collection with one record of user \<open>u1\<close> and two of user \<open>u2\<close>.\<close>

definition ann_emp :: "objectid employee" where
  "ann_emp = \<lparr>emp_id = 1, emp_name = ''Ann Lee'', emp_email = ''annlee@gmail.com'',
     emp_department = ''Sales'', emp_designation = ''Manager'', emp_salary = 1000,
     emp_createdBy = ''u1''\<rparr>"




definition ann_body :: json where
  "ann_body = employee_body '' Ann Lee '' ''annlee@gmail.com'' ''Sales'' ''Manager'' (JStr ''1000'')"

definition ann_body2 :: json where
  "ann_body2 = employee_body ''Ann Lee'' ''annlee@gmail.com'' ''Sales'' ''Director'' (JInt 2000)"




section \<open>The address pattern\<close>

text \<open>What repeating a character class leaves over, and the pieces of the pattern.\<close>

lemma rep_Sym:
  "x \<in> set (rep (ends (Sym p) s) m n t) \<longleftrightarrow>
     (\<exists>k. x = drop k t \<and> m \<le> k \<and> k \<le> n \<and> k \<le> length t \<and> list_all p (take k t))"
proof (induction n arbitrary: m t)
  case 0
  then show ?case by auto
next
  case (Suc n)
  show ?case
  proof (cases t)
    case Nil
    then show ?thesis by auto
  next
    case (Cons c cs)
    show ?thesis
    proof (cases "p c")
      case False
      have "\<And>k. list_all p (take k (c # cs)) \<longleftrightarrow> k = 0"
        using False by (case_tac k) auto
      then show ?thesis using Cons False by auto
    next
      case True
      have *: "(\<exists>k. x = drop k (c # cs) \<and> m \<le> k \<and> k \<le> Suc n \<and> k \<le> length (c # cs) \<and> list_all p (take k (c # cs)))
        \<longleftrightarrow> (m = 0 \<and> x = c # cs) \<or> (\<exists>k. x = drop k cs \<and> m - 1 \<le> k \<and> k \<le> n \<and> k \<le> length cs \<and> list_all p (take k cs))"
        (is "?L \<longleftrightarrow> ?A \<or> ?B")
      proof
        assume ?L
        then obtain k where k: "x = drop k (c # cs)" "m \<le> k" "k \<le> Suc n" "k \<le> length (c # cs)"
          "list_all p (take k (c # cs))" by blast
        show "?A \<or> ?B"
        proof (cases k)
          case 0
          then show ?thesis using k by simp
        next
          case (Suc j)
          then have "x = drop j cs \<and> m - 1 \<le> j \<and> j \<le> n \<and> j \<le> length cs \<and> list_all p (take j cs)"
            using k by auto
          then show ?thesis by blast
        qed
      next
        assume "?A \<or> ?B"
        then show ?L
        proof
          assume ?A
          then show ?L by (intro exI[of _ 0]) simp
        next
          assume ?B
          then obtain j where "x = drop j cs" "m - 1 \<le> j" "j \<le> n" "j \<le> length cs" "list_all p (take j cs)"
            by blast
          then show ?L using True by (intro exI[of _ "Suc j"]) auto
        qed
      qed
      show ?thesis unfolding Cons * using True Suc.IH[of "m - 1" cs] by auto
    qed
  qed
qed

lemma Seq_Sym:
  "x \<in> set (ends (Seq (Sym p) r) s t) \<longleftrightarrow> (\<exists>c cs. t = c # cs \<and> p c \<and> x \<in> set (ends r s cs))"
  by (cases t) auto

lemma Seq_Rep_Sym:
  "x \<in> set (ends (Seq (Rep (Sym p) m n) r) s t) \<longleftrightarrow>
     (\<exists>k. m \<le> k \<and> k \<le> n \<and> k \<le> length t \<and> list_all p (take k t) \<and> x \<in> set (ends r s (drop k t)))"
  using rep_Sym[of _ p s m n t] by auto

lemma Seq_Lit_Eol:
  "[] \<in> set (ends (Seq (Lit w) Eol) s t) \<longleftrightarrow> t = w"
  by (auto simp: take_all_iff)


lemma lookahead_empty:
  "ends (Seq (Star (Sym dot)) (Lit ''..'')) s t = [] \<longleftrightarrow>
     \<not> (\<exists>k. k \<le> length t \<and> list_all dot (take k t) \<and> take 2 (drop k t) = ''..'')"
proof -
  have "ends (Seq (Star (Sym dot)) (Lit ''..'')) s t = [] \<longleftrightarrow>
     (\<forall>y \<in> set (rep (ends (Sym dot) s) 0 (length t) t). take 2 y \<noteq> ''..'')"
    by (auto simp: numeral_2_eq_2)
  also have "\<dots> \<longleftrightarrow> \<not> (\<exists>k. k \<le> length t \<and> list_all dot (take k t) \<and> take 2 (drop k t) = ''..'')"
    by (auto simp: rep_Sym)
  finally show ?thesis .
qed

lemma match_shape:
  "validate_email_format s \<longleftrightarrow>
     \<not> (\<exists>k. k \<le> length s \<and> list_all dot (take k s) \<and> take 2 (drop k s) = ''..'') \<and>
     (\<exists>c mid d. s = c # mid @ d # ''@gmail.com'' \<and> alnum c \<and> alnum d
        \<and> 4 \<le> length mid \<and> length mid \<le> 28 \<and> list_all local_char mid)"
  (is "_ \<longleftrightarrow> ?N \<and> ?S")
proof -
  let ?rest = "Seq (Sym alnum) (Seq (Rep (Sym local_char) 4 28)
    (Seq (Sym alnum) (Seq (Lit ''@gmail.com'') Eol)))"
  have "validate_email_format s \<longleftrightarrow>
      ends (Seq (Star (Sym dot)) (Lit ''..'')) s s = [] \<and> [] \<in> set (ends ?rest s s)"
    by (simp add: validate_email_format_def fullmatch_def email_pattern_def)
  moreover have "[] \<in> set (ends ?rest s s) \<longleftrightarrow> ?S"
  proof
    assume "[] \<in> set (ends ?rest s s)"
    then obtain c cs k d ds where s: "s = c # cs" "alnum c" "4 \<le> k" "k \<le> 28" "k \<le> length cs"
      "list_all local_char (take k cs)" "drop k cs = d # ds" "alnum d" "ds = ''@gmail.com''"
      unfolding Seq_Sym Seq_Rep_Sym Seq_Lit_Eol by blast
    have "s = c # take k cs @ d # ''@gmail.com''"
      using s by (metis append_take_drop_id)
    then show ?S using s by (intro exI[of _ c] exI[of _ "take k cs"] exI[of _ d]) auto
  next
    assume ?S
    then obtain c mid d where s: "s = c # mid @ d # ''@gmail.com''" "alnum c" "alnum d"
      "4 \<le> length mid" "length mid \<le> 28" "list_all local_char mid" by blast
    have "\<exists>k. 4 \<le> k \<and> k \<le> 28 \<and> k \<le> length (mid @ d # ''@gmail.com'')
        \<and> list_all local_char (take k (mid @ d # ''@gmail.com''))
        \<and> (\<exists>c' cs'. drop k (mid @ d # ''@gmail.com'') = c' # cs' \<and> alnum c' \<and> cs' = ''@gmail.com'')"
      using s by (intro exI[of _ "length mid"]) simp
    then show "[] \<in> set (ends ?rest s s)"
      unfolding Seq_Sym Seq_Rep_Sym Seq_Lit_Eol using s by blast
  qed
  ultimately show ?thesis unfolding lookahead_empty by blast
qed

lemma consecutive_dots_iff:
  "consecutive_dots s \<longleftrightarrow> (\<exists>k. take 2 (drop k s) = ''..'')"
proof (induction s rule: consecutive_dots.induct)
  case (3 c d cs)
  have "(\<exists>k. take 2 (drop k (c # d # cs)) = ''..'') \<longleftrightarrow>
        (c = CHR ''.'' \<and> d = CHR ''.'') \<or> (\<exists>k. take 2 (drop k (d # cs)) = ''..'')"
    (is "?L \<longleftrightarrow> ?A \<or> ?B")
  proof
    assume ?L
    then obtain k where k: "take 2 (drop k (c # d # cs)) = ''..''" by blast
    show "?A \<or> ?B"
    proof (cases k)
      case 0
      then show ?thesis using k by (simp add: numeral_2_eq_2)
    next
      case (Suc j)
      then show ?thesis using k by auto
    qed
  next
    assume "?A \<or> ?B"
    then show ?L
    proof
      assume ?A
      then show ?L by (intro exI[of _ 0]) (simp add: numeral_2_eq_2)
    next
      assume ?B
      then obtain j where "take 2 (drop j (d # cs)) = ''..''" by blast
      then show ?L by (intro exI[of _ "Suc j"]) simp
    qed
  qed
  then show ?case using 3 by simp
next
  case 1
  then show ?case by simp
next
  case (2 v)
  then show ?case by (simp add: numeral_2_eq_2 drop_Cons')
qed

lemma consecutive_dots_at:
  "consecutive_dots (xs @ CHR ''@'' # ys) \<longleftrightarrow> consecutive_dots xs \<or> consecutive_dots ys"
proof (induction xs rule: consecutive_dots.induct)
  case (3 c d cs)
  then show ?case by simp
next
  case 1
  then show ?case by (cases ys) auto
next
  case (2 v)
  then show ?case by (cases ys) auto
qed


lemma alnum_not_special:
  "alnum c \<Longrightarrow> c \<noteq> CHR ''@'' \<and> c \<noteq> CHR ''.'' \<and> dot c"
  by (auto simp: alnum_def in_range_def dot_def)

lemma local_char_not_special:
  "local_char c \<Longrightarrow> c \<noteq> CHR ''@'' \<and> dot c"
  by (auto simp: local_char_def alnum_def in_range_def dot_def)

lemma split_at_sign:
  assumes "\<forall>x\<in>set l. x \<noteq> CHR ''@''"
  shows "local_part (l @ CHR ''@'' # r) = l" and "domain_part (l @ CHR ''@'' # r) = r"
  using assms by (simp_all add: local_part_def domain_part_def takeWhile_append2 dropWhile_append2)

lemma email_spec_shape:
  "email_spec s \<longleftrightarrow>
     (\<exists>c mid d. s = c # mid @ d # ''@gmail.com'' \<and> alnum c \<and> alnum d
        \<and> 4 \<le> length mid \<and> length mid \<le> 28 \<and> list_all local_char mid
        \<and> \<not> consecutive_dots (c # mid @ [d]))"
  (is "_ \<longleftrightarrow> ?S")
proof
  assume spec: "email_spec s"
  define l where "l = local_part s"
  have l: "6 \<le> length l" "length l \<le> 30" "alnum (hd l)" "alnum (last l)"
    "list_all local_char (butlast (tl l))" "\<not> consecutive_dots l"
    and dom: "domain_part s = ''gmail.com''"
    using spec by (simp_all add: email_spec_def Let_def l_def)
  obtain c t where t: "l = c # t" using l(1) by (cases l) auto
  have "t \<noteq> []" using l(1) t by auto
  then have t': "t = butlast t @ [last t]" by simp
  define mid where "mid = butlast t"
  define d where "d = last t"
  have lshape: "l = c # mid @ [d]" using t t' by (simp add: mid_def d_def)
  let ?rest = "dropWhile (\<lambda>c. c \<noteq> CHR ''@'') s"
  have s: "s = l @ ?rest" by (simp add: l_def local_part_def)
  have "?rest \<noteq> []"
  proof
    assume "?rest = []"
    then have "domain_part s = drop 1 []" by (simp only: domain_part_def)
    then show False using dom by simp
  qed
  then obtain y ys where ys: "?rest = y # ys" by (cases ?rest) auto
  have "\<not> (hd ?rest \<noteq> CHR ''@'')" using \<open>?rest \<noteq> []\<close> by (rule hd_dropWhile)
  then have "y = CHR ''@''" using ys by simp
  moreover have "ys = ''gmail.com''" using dom ys by (simp add: domain_part_def)
  ultimately have "s = c # mid @ d # ''@gmail.com''" using s ys lshape by simp
  moreover have "alnum c" "alnum d" "list_all local_char mid" "\<not> consecutive_dots (c # mid @ [d])"
    using l lshape by (simp_all add: mid_def d_def t \<open>t \<noteq> []\<close>)
  moreover have "4 \<le> length mid" "length mid \<le> 28" using l(1,2) lshape by simp_all
  ultimately show ?S by blast
next
  assume ?S
  then obtain c mid d where s: "s = c # mid @ d # ''@gmail.com''" "alnum c" "alnum d"
    "4 \<le> length mid" "length mid \<le> 28" "list_all local_char mid"
    "\<not> consecutive_dots (c # mid @ [d])" by blast
  let ?l = "c # mid @ [d]"
  have noat: "\<forall>x\<in>set ?l. x \<noteq> CHR ''@''"
    using s alnum_not_special local_char_not_special by (auto simp: list_all_iff)
  have s': "s = ?l @ CHR ''@'' # ''gmail.com''" using s by simp
  have "local_part s = ?l" "domain_part s = ''gmail.com''"
    unfolding s' using noat by (rule split_at_sign)+
  then show "email_spec s"
    using s by (simp add: email_spec_def Let_def butlast_append)
qed

text \<open>
  Claim C4. For every string, \<open>validate_email_format\<close> accepts it exactly when its local
  part has 6 to 30 characters, begins and ends with a letter or digit, has only letters,
  digits and \<open>. _ % + -\<close> in between, contains no two consecutive dots, and its domain is
  \<open>gmail.com\<close>.
\<close>

theorem validate_email_format_iff_spec:
  "validate_email_format s \<longleftrightarrow> email_spec s"
proof -
  have "(\<exists>k. k \<le> length s \<and> list_all dot (take k s) \<and> take 2 (drop k s) = ''..'')
      \<longleftrightarrow> consecutive_dots (c # mid @ [d])"
    if s: "s = c # mid @ d # ''@gmail.com''" "alnum c" "alnum d" "list_all local_char mid"
    for c mid d
  proof -
    have "\<forall>x\<in>set s. dot x"
      using s alnum_not_special local_char_not_special by (auto simp: list_all_iff dot_def)
    then have "\<And>k. list_all dot (take k s)"
      by (auto simp: list_all_iff dest: in_set_takeD)
    moreover have "\<And>k. take 2 (drop k s) = ''..'' \<Longrightarrow> k \<le> length s"
      by (rule ccontr) simp
    ultimately have "(\<exists>k. k \<le> length s \<and> list_all dot (take k s) \<and> take 2 (drop k s) = ''..'')
      \<longleftrightarrow> consecutive_dots s"
      unfolding consecutive_dots_iff by blast
    then have "(\<exists>k. k \<le> length s \<and> list_all dot (take k s) \<and> take 2 (drop k s) = ''..'')
      \<longleftrightarrow> consecutive_dots s" .
    moreover have "s = (c # mid @ [d]) @ CHR ''@'' # ''gmail.com''" using s by simp
    then have "consecutive_dots s \<longleftrightarrow> consecutive_dots (c # mid @ [d])"
      using consecutive_dots_at[of "c # mid @ [d]" "''gmail.com''"] by simp
    ultimately show ?thesis by blast
  qed
  then show ?thesis unfolding match_shape email_spec_shape by blast
qed

section \<open>The store operations and the handlers on failure\<close>

lemma find_one_None: "find_one flt coll = None \<longleftrightarrow> \<not> (\<exists>x\<in>set coll. flt x)"
  by (auto simp: find_one_def find_None_iff)

lemma update_one_nomatch: "\<not> (\<exists>x\<in>set xs. flt x) \<Longrightarrow> update_one flt upd xs = (0, xs)"
  by (induction xs) auto

lemma update_one_count: "fst (update_one flt upd xs) = (if \<exists>x\<in>set xs. flt x then 1 else 0)"
  by (induction xs) (auto split: prod.splits)

lemma update_one_zero: "update_one flt upd xs = (0, ys) \<Longrightarrow> ys = xs \<and> \<not> (\<exists>x\<in>set xs. flt x)"
  using update_one_count[of flt upd xs] update_one_nomatch[of xs flt upd]
  by (auto split: if_splits)

lemma delete_one_nomatch: "\<not> (\<exists>x\<in>set xs. flt x) \<Longrightarrow> delete_one flt xs = (0, xs)"
  by (induction xs) auto

lemma delete_one_count: "fst (delete_one flt xs) = (if \<exists>x\<in>set xs. flt x then 1 else 0)"
  by (induction xs) (auto split: prod.splits)

lemma delete_one_zero: "delete_one flt xs = (0, ys) \<Longrightarrow> ys = xs \<and> \<not> (\<exists>x\<in>set xs. flt x)"
  using delete_one_count[of flt xs] delete_one_nomatch[of xs flt]
  by (auto split: if_splits)

lemma register_unchanged:
  "fst (register hashpw salt oid data d) \<noteq> Returned 201 (Message ''Registered Successfully'')
     \<Longrightarrow> snd (register hashpw salt oid data d) = d"
  by (auto simp: register_def Let_def split: json.splits sum.splits if_splits)

lemma login_unchanged: "snd (login qmatch checkpw tok data d) = d"
  by (auto simp: login_def Let_def split: json.splits option.splits)

lemma create_unchanged:
  "fst (create_employee user_id oid data d) \<noteq> Returned 201 (Message ''Employee Added'')
     \<Longrightarrow> snd (create_employee user_id oid data d) = d"
  by (auto simp: create_employee_def split: sum.splits option.splits if_splits)

lemma update_unchanged:
  "fst (update_employee user_id ident data d) \<noteq> Returned 200 (Message ''Updated'')
     \<Longrightarrow> snd (update_employee user_id ident data d) = d"
  by (auto simp: update_employee_def split: sum.splits option.splits if_splits prod.splits
      dest!: update_one_zero)

lemma delete_unchanged:
  "fst (delete_employee user_id ident d) \<noteq> Returned 200 (Message ''Deleted'')
     \<Longrightarrow> snd (delete_employee user_id ident d) = d"
  by (auto simp: delete_employee_def split: sum.splits prod.splits if_splits
      dest!: delete_one_zero)

lemma error_response_iff: "error_response out \<longleftrightarrow> (\<exists>st m. out = Returned st (Error m))"
  by (auto simp: error_response_def split: outcome.splits body.splits)

text \<open>
  Claim C9. Whenever \<open>register\<close>, \<open>login\<close>, \<open>create_employee\<close>, \<open>update_employee\<close> or
  \<open>delete_employee\<close> answers with an error response, the two collections are what they
  were before the request.
\<close>

theorem atomicity_on_error:
  "(error_response (fst (register hashpw salt oid data d))
      \<longrightarrow> snd (register hashpw salt oid data d) = d)
   \<and> (error_response (fst (login qmatch checkpw tok data d))
      \<longrightarrow> snd (login qmatch checkpw tok data d) = d)
   \<and> (error_response (fst (create_employee user_id oid data d))
      \<longrightarrow> snd (create_employee user_id oid data d) = d)
   \<and> (error_response (fst (update_employee user_id ident data d))
      \<longrightarrow> snd (update_employee user_id ident data d) = d)
   \<and> (error_response (fst (delete_employee user_id ident d))
      \<longrightarrow> snd (delete_employee user_id ident d) = d)"
  using register_unchanged[of hashpw salt oid data d] login_unchanged[of qmatch checkpw tok data d]
    create_unchanged[of user_id oid data d] update_unchanged[of user_id ident data d]
    delete_unchanged[of user_id ident d]
  by (auto simp: error_response_iff)


theorem atomicity_on_error_witness:
  "error_response (fst (register demo_hashpw ''s1'' 7 (JObj []) empty_db))
   \<and> snd (register demo_hashpw ''s1'' 7 (JObj []) empty_db) = empty_db
   \<and> error_response (fst (login demo_qmatch demo_checkpw demo_token (JObj []) empty_db))
   \<and> snd (login demo_qmatch demo_checkpw demo_token (JObj []) empty_db) = empty_db
   \<and> error_response (fst (create_employee ''u1'' 7 (JObj []) empty_db))
   \<and> snd (create_employee ''u1'' 7 (JObj []) empty_db) = empty_db
   \<and> error_response (fst (update_employee ''u1'' ''000000000000000000000001'' (JObj []) empty_db))
   \<and> snd (update_employee ''u1'' ''000000000000000000000001'' (JObj []) empty_db) = empty_db
   \<and> error_response (fst (delete_employee ''u1'' ''000000000000000000000001'' empty_db))
   \<and> snd (delete_employee ''u1'' ''000000000000000000000001'' empty_db) = empty_db"
proof -
  have "error_response (fst (register demo_hashpw ''s1'' 7 (JObj []) empty_db))"
    by (simp add: register_def dict_get_def error_response_def)
  moreover have "error_response (fst (login demo_qmatch demo_checkpw demo_token (JObj []) empty_db))"
    by (simp add: login_def dict_get_def error_response_def)
  moreover have "error_response (fst (create_employee ''u1'' 7 (JObj []) empty_db))"
    by code_simp
  moreover have "error_response (fst (update_employee ''u1'' ''000000000000000000000001'' (JObj []) empty_db))"
    by code_simp
  moreover have "error_response (fst (delete_employee ''u1'' ''000000000000000000000001'' empty_db))"
    by code_simp
  ultimately show ?thesis
    using atomicity_on_error[where hashpw = demo_hashpw and salt = "''s1''" and oid = 7
        and data = "JObj []" and d = empty_db and qmatch = demo_qmatch and checkpw = demo_checkpw
        and tok = demo_token and user_id = "''u1''" and ident = "''000000000000000000000001''"]
    by blast
qed



section \<open>Status codes\<close>

lemma classify_messages:
  "classify ''All fields required'' = Some ValidationError"
  "classify ''Invalid email format'' = Some ValidationError"
  "classify ''Password must be 6+ chars'' = Some ValidationError"
  "classify ''Invalid Name'' = Some ValidationError"
  "classify ''Invalid Email'' = Some ValidationError"
  "classify ''Invalid Department'' = Some ValidationError"
  "classify ''Invalid Role'' = Some ValidationError"
  "classify ''Invalid Salary'' = Some ValidationError"
  "classify ''Email already exists'' = Some ConflictError"
  "classify ''Invalid credentials'' = Some AuthError"
  "classify ''Not authorized'' = Some ForbiddenError"
  by (simp_all add: classify_def)

lemma handler_response_simps:
  "handler_response 400 (Error ''All fields required'')"
  "handler_response 400 (Error ''Invalid email format'')"
  "handler_response 400 (Error ''Password must be 6+ chars'')"
  "handler_response 400 (Error ''Email already exists'')"
  "handler_response 400 (Error ''Invalid credentials'')"
  "handler_response 403 (Error ''Not authorized'')"
  "handler_response 200 (Message m)"
  "handler_response 201 (Message m)"
  "handler_response 200 (Token t n)"
  "handler_response 200 (Employees es)"
  by (simp_all add: handler_response_def classify_messages)

lemma validate_fields_response:
  "validate_fields f = Some m \<Longrightarrow> handler_response 400 (Error m)"
  by (auto simp: validate_fields_def handler_response_def classify_messages split: if_splits)

lemma register_response:
  "fst (register hashpw salt oid data d) = Returned st b \<Longrightarrow> handler_response st b"
  by (auto simp: register_def Let_def handler_response_simps
      split: json.splits sum.splits if_splits)

lemma login_response:
  "fst (login qmatch checkpw tok data d) = Returned st b \<Longrightarrow> handler_response st b"
  by (auto simp: login_def Let_def handler_response_simps
      split: json.splits option.splits if_splits)

lemma create_response:
  "fst (create_employee user_id oid data d) = Returned st b \<Longrightarrow> handler_response st b"
  by (auto simp: create_employee_def handler_response_simps validate_fields_response
      split: sum.splits option.splits if_splits)

lemma get_response:
  "fst (get_employees user_id d) = Returned st b \<Longrightarrow> handler_response st b"
  by (auto simp: get_employees_def handler_response_simps)

lemma update_response:
  "fst (update_employee user_id ident data d) = Returned st b \<Longrightarrow> handler_response st b"
  by (auto simp: update_employee_def handler_response_simps validate_fields_response
      split: sum.splits option.splits if_splits prod.splits)

lemma delete_response:
  "fst (delete_employee user_id ident d) = Returned st b \<Longrightarrow> handler_response st b"
  by (auto simp: delete_employee_def handler_response_simps
      split: sum.splits if_splits prod.splits)

text \<open>
  Claim C8, as amended. Every response that \<open>register\<close>, \<open>login\<close>, \<open>create_employee\<close>,
  \<open>get_employees\<close>, \<open>update_employee\<close> or \<open>delete_employee\<close> returns either has a body
  \<open>{"error": message}\<close> whose message belongs to a class of the taxonomy and whose
  status is 403 for the forbidden class and 400 for the validation, conflict and
  credential classes, or is a success with status 200 or 201.
\<close>

theorem error_status_mapping:
  assumes "out \<in> {fst (register hashpw salt oid data d), fst (login qmatch checkpw tok data d),
                   fst (create_employee user_id oid data d), fst (get_employees user_id d),
                   fst (update_employee user_id ident data d), fst (delete_employee user_id ident d)}"
    and "out = Returned st b"
  shows "case b of
           Error m \<Rightarrow> \<exists>c. classify m = Some c \<and> st = status_in_code c
         | _ \<Rightarrow> st = 200 \<or> st = 201"
proof -
  have "handler_response st b"
    using assms register_response[of hashpw salt oid data d st b]
      login_response[of qmatch checkpw tok data d st b] create_response[of user_id oid data d st b]
      get_response[of user_id d st b] update_response[of user_id ident data d st b]
      delete_response[of user_id ident d st b]
    by auto
  then show ?thesis by (simp add: handler_response_def)
qed

text \<open>
  Claim C8 as stated fails: a login for an unknown e-mail is answered with status 400,
  where the taxonomy gives an \<open>AuthError\<close> the status 401.
\<close>

theorem login_status_counterexample:
  "fst (login demo_qmatch demo_checkpw demo_token (login_body ''nobody@gmail.com'' ''secret1'') empty_db)
     = Returned 400 (Error ''Invalid credentials'')
   \<and> classify ''Invalid credentials'' = Some AuthError
   \<and> spec_status AuthError \<noteq> 400"
  by (simp add: login_def login_body_def dict_get_def find_one_def empty_db_def classify_def)

theorem error_status_mapping_witness:
  "fst (delete_employee ''u1'' ''000000000000000000000001'' empty_db)
       = Returned 403 (Error ''Not authorized'')
   \<and> (\<exists>c. classify ''Not authorized'' = Some c \<and> (403::nat) = status_in_code c)"
proof -
  have r: "fst (delete_employee ''u1'' ''000000000000000000000001'' empty_db)
       = Returned 403 (Error ''Not authorized'')"
    by code_simp
  have "fst (delete_employee ''u1'' ''000000000000000000000001'' empty_db)
       \<in> {fst (register demo_hashpw ''s1'' 7 (JObj []) empty_db),
          fst (login demo_qmatch demo_checkpw demo_token (JObj []) empty_db),
          fst (create_employee ''u1'' 7 (JObj []) empty_db), fst (get_employees ''u1'' empty_db),
          fst (update_employee ''u1'' ''000000000000000000000001'' (JObj []) empty_db),
          fst (delete_employee ''u1'' ''000000000000000000000001'' empty_db)}"
    by blast
  from error_status_mapping[OF this r] r show ?thesis by simp
qed



lemma insert_one_fresh:
  "idf doc \<notin> idf ` set coll \<Longrightarrow> insert_one idf doc coll = Inr (coll @ [doc])"
  by (simp add: insert_one_def)



section \<open>Registration and the salary\<close>

lemma register_ill_typed:
  assumes "data = JObj kvs" and "truthy (dict_get kvs ''name'' JNull)"
    and "truthy (dict_get kvs ''email'' JNull)" and "truthy (dict_get kvs ''password'' JNull)"
    and "\<not> (\<exists>e. dict_get kvs ''email'' JNull = JStr e)"
  shows "register hashpw salt oid data d = (Raised TypeError, d)"
  using assms by (auto simp: register_def Let_def split: json.splits)



lemma validate_salary_examples:
  "\<not> validate_salary (JStr ''abc'')" "\<not> validate_salary (JStr ''-5'')"
  "\<not> validate_salary (JStr ''0'')" "\<not> validate_salary JNull"
  "validate_salary (JStr ''1'')" "validate_salary (JInt 100000)"
  "py_int (JStr ''1'') = Inr 1" "py_int (JInt 100000) = Inr 100000"
  by code_simp+

text \<open>
  Claim C3 fails on the code for a JSON boolean: \<open>int(True)\<close> is 1, so \<open>true\<close> passes
  \<open>validate_salary\<close> and an employee is stored with salary 1.
\<close>

theorem boolean_salary_accepted:
  "validate_salary (JBool True)
   \<and> create_employee ''u1'' 1
        (employee_body ''Ann Lee'' ''annlee@gmail.com'' ''Sales'' ''Manager'' (JBool True)) empty_db
     = (Returned 201 (Message ''Employee Added''),
        \<lparr>users = [],
         employees = [\<lparr>emp_id = 1, emp_name = ''Ann Lee'', emp_email = ''annlee@gmail.com'',
                       emp_department = ''Sales'', emp_designation = ''Manager'',
                       emp_salary = 1, emp_createdBy = ''u1''\<rparr>]\<rparr>)"
  by code_simp

section \<open>Identifiers\<close>

lemma length_to_hex: "length (to_hex k n) = k"
  by (induction k arbitrary: n) auto

lemma hex_char_props: "m < 16 \<Longrightarrow> is_hex (hex_char m) \<and> hex_val (hex_char m) = m"
proof -
  assume "m < 16"
  then have "m = 0 \<or> m = 1 \<or> m = 2 \<or> m = 3 \<or> m = 4 \<or> m = 5 \<or> m = 6 \<or> m = 7 \<or> m = 8
      \<or> m = 9 \<or> m = 10 \<or> m = 11 \<or> m = 12 \<or> m = 13 \<or> m = 14 \<or> m = 15"
    by arith
  then show ?thesis
    by (elim disjE; simp add: hex_char_def is_hex_def hex_val_def in_range_def)
qed

lemma to_hex_is_hex: "list_all is_hex (to_hex k n)"
  by (induction k arbitrary: n) (auto simp: hex_char_props)

lemma foldl_hex_snoc: "hex_to_nat (xs @ [c]) = 16 * hex_to_nat xs + hex_val c"
  by (simp add: hex_to_nat_def)

lemma hex_to_nat_to_hex: "hex_to_nat (to_hex k n) = n mod 16 ^ k"
proof (induction k arbitrary: n)
  case 0
  then show ?case by (simp add: hex_to_nat_def)
next
  case (Suc k)
  have "hex_to_nat (to_hex (Suc k) n) = 16 * (n div 16 mod 16 ^ k) + n mod 16"
    by (simp add: foldl_hex_snoc Suc.IH hex_char_props)
  also have "\<dots> = n mod 16 ^ Suc k"
    by (simp add: mod_mult2_eq)
  finally show ?case .
qed

lemma ObjectId_str: "ObjectId (str_ObjectId oid) = Inr oid"
proof -
  have "unat oid < 2 ^ 96" using unsigned_less[of oid] by simp
  then have "unat oid mod 16 ^ 24 = unat oid" by simp
  then show ?thesis
    by (simp add: ObjectId_def str_ObjectId_def length_to_hex to_hex_is_hex hex_to_nat_to_hex)
qed

lemma str_ObjectId_inject: "str_ObjectId a = str_ObjectId b \<longleftrightarrow> a = b"
  by (metis ObjectId_str sum.inject(2))

lemma well_formed_str: "well_formed_id (str_ObjectId oid)"
  by (simp add: well_formed_id_def str_ObjectId_def length_to_hex to_hex_is_hex)



section \<open>What a successful or refused write does\<close>

lemma update_one_ids:
  "(\<And>x. idf (upd x) = idf x) \<Longrightarrow> map idf (snd (update_one flt upd xs)) = map idf xs"
  by (induction xs) (auto split: prod.splits)

lemma update_one_hit:
  "\<exists>x\<in>set xs. flt x \<Longrightarrow> \<exists>x\<in>set xs. flt x \<and> upd x \<in> set (snd (update_one flt upd xs))"
proof (induction xs)
  case Nil
  then show ?case by simp
next
  case (Cons a xs)
  show ?case
  proof (cases "flt a")
    case True
    then show ?thesis by simp
  next
    case False
    then have "\<exists>x\<in>set xs. flt x" using Cons.prems by auto
    then obtain x where "x \<in> set xs" "flt x" "upd x \<in> set (snd (update_one flt upd xs))"
      using Cons.IH by blast
    then show ?thesis using False by (auto split: prod.splits)
  qed
qed

lemma update_one_unique:
  assumes "distinct (map idf xs)" and "\<And>x. flt x \<Longrightarrow> idf x = k" and "\<And>x. idf (upd x) = idf x"
    and "\<exists>x\<in>set xs. flt x" and "e \<in> set (snd (update_one flt upd xs))" and "idf e = k"
  shows "\<exists>x\<in>set xs. flt x \<and> e = upd x"
  using assms(1,4,5)
proof (induction xs)
  case Nil
  then show ?case by simp
next
  case (Cons x xs)
  show ?case
  proof (cases "flt x")
    case True
    then have "idf x = k" by (rule assms(2))
    then have "\<forall>y\<in>set xs. idf y \<noteq> k" using Cons.prems(1) by (force simp: image_iff)
    then show ?thesis using True Cons.prems(3) assms(6) by auto
  next
    case False
    then obtain y where y: "y \<in> set xs" "flt y" using Cons.prems(2) by auto
    then have "idf y = k" using assms(2) by simp
    then have "idf x \<noteq> k" using y Cons.prems(1) by force
    then have "e \<in> set (snd (update_one flt upd xs))"
      using False Cons.prems(3) assms(6) by (auto split: prod.splits)
    then show ?thesis using Cons.IH Cons.prems(1) y by auto
  qed
qed

lemma delete_one_set: "e \<in> set (snd (delete_one flt xs)) \<Longrightarrow> e \<in> set xs"
  by (induction xs) (auto split: prod.splits if_splits)

lemma delete_one_distinct:
  "distinct (map idf xs) \<Longrightarrow> distinct (map idf (snd (delete_one flt xs)))"
proof (induction xs)
  case Nil
  then show ?case by simp
next
  case (Cons a xs)
  have "idf a \<notin> idf ` set (snd (delete_one flt xs))"
    using Cons.prems delete_one_set[of _ flt xs] by auto
  then show ?case using Cons by (auto split: prod.splits)
qed

lemma delete_one_gone:
  assumes "distinct (map idf xs)" and "\<And>x. flt x \<Longrightarrow> idf x = k"
    and "\<exists>x\<in>set xs. flt x" and "e \<in> set (snd (delete_one flt xs))"
  shows "idf e \<noteq> k"
  using assms(1,3,4)
proof (induction xs)
  case Nil
  then show ?case by simp
next
  case (Cons x xs)
  show ?case
  proof (cases "flt x")
    case True
    then have "idf x = k" by (rule assms(2))
    then have "\<forall>y\<in>set xs. idf y \<noteq> k" using Cons.prems(1) by (force simp: image_iff)
    then show ?thesis using True Cons.prems(3) by auto
  next
    case False
    then obtain y where y: "y \<in> set xs" "flt y" using Cons.prems(2) by auto
    then have "idf y = k" using assms(2) by simp
    then have "idf x \<noteq> k" using y Cons.prems(1) by force
    then show ?thesis using False Cons y by (auto split: prod.splits)
  qed
qed


lemma update_valid:
  assumes "extract_fields data = Inr f" and "validate_fields f = None"
    and "ObjectId ident = Inr oid" and "py_int (f_salary f) = Inr n"
  shows "update_employee user_id ident data d =
    (if \<exists>e\<in>set (employees d). emp_email e = f_email f \<and> emp_createdBy e = user_id \<and> emp_id e \<noteq> oid
     then (Returned 400 (Error ''Email already exists''), d)
     else if \<not> (\<exists>e\<in>set (employees d). emp_id e = oid \<and> emp_createdBy e = user_id)
     then (Returned 403 (Error ''Not authorized''), d)
     else (Returned 200 (Message ''Updated''),
           d\<lparr>employees := snd (update_one (\<lambda>e. emp_id e = oid \<and> emp_createdBy e = user_id)
                                  (set_fields f n) (employees d))\<rparr>))"
proof -
  let ?flt = "\<lambda>e. emp_id e = oid \<and> emp_createdBy e = user_id"
  let ?u = "update_one ?flt (set_fields f n) (employees d)"
  show ?thesis
  proof (cases "\<exists>x\<in>set (employees d). ?flt x")
    case True
    then have "fst ?u = 1" by (simp add: update_one_count)
    then obtain es where es: "?u = (1, es)" by (cases ?u) auto
    then have "snd ?u = es" by simp
    then show ?thesis
      using assms True es by (simp add: update_employee_def find_one_None)
  next
    case False
    then have "?u = (0, employees d)" by (rule update_one_nomatch)
    then show ?thesis
      using assms False by (simp add: update_employee_def find_one_None)
  qed
qed

lemma delete_valid:
  assumes "ObjectId ident = Inr oid"
  shows "delete_employee user_id ident d =
    (if \<not> (\<exists>e\<in>set (employees d). emp_id e = oid \<and> emp_createdBy e = user_id)
     then (Returned 403 (Error ''Not authorized''), d)
     else (Returned 200 (Message ''Deleted''),
           d\<lparr>employees := snd (delete_one (\<lambda>e. emp_id e = oid \<and> emp_createdBy e = user_id)
                                  (employees d))\<rparr>))"
proof -
  let ?flt = "\<lambda>e. emp_id e = oid \<and> emp_createdBy e = user_id"
  let ?u = "delete_one ?flt (employees d)"
  show ?thesis
  proof (cases "\<exists>x\<in>set (employees d). ?flt x")
    case True
    then have "fst ?u = 1" by (simp add: delete_one_count)
    then obtain es where es: "?u = (1, es)" by (cases ?u) auto
    then have "snd ?u = es" by simp
    then show ?thesis
      using assms True es by (simp add: delete_employee_def)
  next
    case False
    then have "?u = (0, employees d)" by (rule delete_one_nomatch)
    then show ?thesis
      using assms False by (simp add: delete_employee_def)
  qed
qed

lemma create_valid:
  assumes "extract_fields data = Inr f" and "validate_fields f = None"
    and "py_int (f_salary f) = Inr n"
  shows "create_employee user_id oid data d =
    (if \<exists>e\<in>set (employees d). emp_email e = f_email f \<and> emp_createdBy e = user_id
     then (Returned 400 (Error ''Email already exists''), d)
     else if oid \<in> emp_id ` set (employees d) then (Raised DuplicateKeyError, d)
     else (Returned 201 (Message ''Employee Added''),
           d\<lparr>employees := employees d @
              [\<lparr>emp_id = oid, emp_name = f_name f, emp_email = f_email f,
                emp_department = f_department f, emp_designation = f_designation f,
                emp_salary = n, emp_createdBy = user_id\<rparr>]\<rparr>))"
  using assms by (auto simp: create_employee_def find_one_None insert_one_def)

lemma create_success:
  assumes "fst (create_employee user_id oid data d) = Returned 201 b"
  shows "\<exists>f n. extract_fields data = Inr f \<and> validate_fields f = None \<and> py_int (f_salary f) = Inr n"
  using assms by (auto simp: create_employee_def split: sum.splits option.splits if_splits)

lemma update_success:
  assumes "fst (update_employee user_id ident data d) = Returned 200 b"
  shows "\<exists>f n oid. extract_fields data = Inr f \<and> validate_fields f = None
     \<and> py_int (f_salary f) = Inr n \<and> ObjectId ident = Inr oid"
  using assms by (auto simp: update_employee_def split: sum.splits option.splits if_splits prod.splits)

lemma shown_extract:
  assumes "extract_fields data = Inr f" and "py_int (f_salary f) = Inr n"
  shows "shown ident user_id data =
    Some \<lparr>emp_id = ident, emp_name = f_name f, emp_email = f_email f,
          emp_department = f_department f, emp_designation = f_designation f,
          emp_salary = n, emp_createdBy = user_id\<rparr>"
  using assms
  by (auto simp: extract_fields_def shown_def get_strip_def split: json.splits sum.splits)

section \<open>Create, list, update, delete\<close>

lemma listed_eq:
  "listed user_id d = map serialize (filter (\<lambda>e. emp_createdBy e = user_id) (employees d))"
  by (simp add: listed_def get_employees_def)

lemma serialize_set_fields:
  "serialize (set_fields f n e) =
     \<lparr>emp_id = str_ObjectId (emp_id e), emp_name = f_name f, emp_email = f_email f,
      emp_department = f_department f, emp_designation = f_designation f,
      emp_salary = n, emp_createdBy = emp_createdBy e\<rparr>"
  by (simp add: serialize_def set_fields_def)

lemma set_fields_keeps:
  "emp_id (set_fields f n e) = emp_id e" "emp_createdBy (set_fields f n e) = emp_createdBy e"
  by (simp_all add: set_fields_def)

text \<open>
  Claim C2. After a successful create, the list of the user shows a record with the
  trimmed text inputs and the salary input parsed as an integer; after a successful
  update of that record the list shows the new values, and no record with that
  identifier shows anything else; after a successful delete of it the list holds no
  record with that identifier. Identifiers are compared in their string form.
\<close>

theorem crud_round_trip:
  assumes inv: "ids_unique d"
    and c: "create_employee user_id oid data1 d = (Returned 201 (Message ''Employee Added''), d1)"
    and u: "update_employee user_id (str_ObjectId oid) data2 d1 = (Returned 200 (Message ''Updated''), d2)"
    and del: "delete_employee user_id (str_ObjectId oid) d2 = (Returned 200 (Message ''Deleted''), d3)"
  shows "(\<exists>e. shown (str_ObjectId oid) user_id data1 = Some e \<and> e \<in> set (listed user_id d1))
       \<and> (\<exists>e. shown (str_ObjectId oid) user_id data2 = Some e \<and> e \<in> set (listed user_id d2)
              \<and> (\<forall>e'\<in>set (listed user_id d2). emp_id e' = str_ObjectId oid \<longrightarrow> e' = e))
       \<and> (\<forall>e\<in>set (listed user_id d3). emp_id e \<noteq> str_ObjectId oid)"
proof -
  let ?flt = "\<lambda>e. emp_id e = oid \<and> emp_createdBy e = user_id"
  \<comment> \<open>create\<close>
  obtain f1 n1 where f1: "extract_fields data1 = Inr f1" "validate_fields f1 = None"
    "py_int (f_salary f1) = Inr n1"
    using create_success[of user_id oid data1 d] c by auto
  let ?new = "\<lparr>emp_id = oid, emp_name = f_name f1, emp_email = f_email f1,
                emp_department = f_department f1, emp_designation = f_designation f1,
                emp_salary = n1, emp_createdBy = user_id\<rparr>"
  have c': "oid \<notin> emp_id ` set (employees d)" "employees d1 = employees d @ [?new]"
    using c create_valid[OF f1, of user_id oid d] by (auto split: if_splits)
  have inv1: "distinct (map emp_id (employees d1))"
    using inv c' by (simp add: ids_unique_def)
  have "serialize ?new \<in> set (listed user_id d1)"
    by (simp add: listed_eq c'(2))
  moreover have "shown (str_ObjectId oid) user_id data1 = Some (serialize ?new)"
    by (simp add: shown_extract[OF f1(1,3)] serialize_def)
  ultimately have part1: "\<exists>e. shown (str_ObjectId oid) user_id data1 = Some e \<and> e \<in> set (listed user_id d1)"
    by blast
  \<comment> \<open>update\<close>
  obtain f2 n2 where f2: "extract_fields data2 = Inr f2" "validate_fields f2 = None"
    "py_int (f_salary f2) = Inr n2"
    using update_success[of user_id "str_ObjectId oid" data2 d1] u by auto
  have oid: "ObjectId (str_ObjectId oid) = Inr oid" by (rule ObjectId_str)
  let ?es2 = "snd (update_one ?flt (set_fields f2 n2) (employees d1))"
  have u': "\<exists>x\<in>set (employees d1). ?flt x" "employees d2 = ?es2"
    using u update_valid[OF f2(1,2) oid f2(3), of user_id d1] by (auto split: if_splits)
  let ?shown2 = "\<lparr>emp_id = str_ObjectId oid, emp_name = f_name f2, emp_email = f_email f2,
                   emp_department = f_department f2, emp_designation = f_designation f2,
                   emp_salary = n2, emp_createdBy = user_id\<rparr>"
  have ser: "\<And>x. ?flt x \<Longrightarrow> serialize (set_fields f2 n2 x) = ?shown2"
    by (simp add: serialize_set_fields)
  have sh2: "shown (str_ObjectId oid) user_id data2 = Some ?shown2"
    by (rule shown_extract[OF f2(1,3)])
  obtain x where x: "x \<in> set (employees d1)" "?flt x" "set_fields f2 n2 x \<in> set ?es2"
    using update_one_hit[OF u'(1), of "set_fields f2 n2"] by blast
  have "emp_createdBy (set_fields f2 n2 x) = user_id" using x(2) by (simp add: set_fields_keeps)
  then have in2: "?shown2 \<in> set (listed user_id d2)"
    using x(3) ser[OF x(2)] by (force simp: listed_eq u'(2))
  have only2: "e' = ?shown2" if "e' \<in> set (listed user_id d2)" "emp_id e' = str_ObjectId oid" for e'
  proof -
    have "e' \<in> serialize ` set (employees d2)"
      using that(1) by (auto simp: listed_eq)
    then obtain e0 where e0: "e0 \<in> set ?es2" "e' = serialize e0"
      unfolding u'(2) by blast
    have "str_ObjectId (emp_id e0) = str_ObjectId oid" using that(2) e0(2) by (simp add: serialize_def)
    then have "emp_id e0 = oid" by (simp add: str_ObjectId_inject)
    then obtain y where "y \<in> set (employees d1)" "?flt y" "e0 = set_fields f2 n2 y"
      using update_one_unique[of emp_id "employees d1" ?flt oid "set_fields f2 n2" e0]
        inv1 u'(1) e0(1) by (auto simp: set_fields_keeps)
    then show ?thesis using ser e0(2) by simp
  qed
  have part2: "\<exists>e. shown (str_ObjectId oid) user_id data2 = Some e \<and> e \<in> set (listed user_id d2)
              \<and> (\<forall>e'\<in>set (listed user_id d2). emp_id e' = str_ObjectId oid \<longrightarrow> e' = e)"
    using sh2 in2 only2 by blast
  have inv2: "distinct (map emp_id (employees d2))"
    using inv1 by (simp add: u'(2) update_one_ids set_fields_keeps)
  \<comment> \<open>delete\<close>
  let ?es3 = "snd (delete_one ?flt (employees d2))"
  have d': "\<exists>x\<in>set (employees d2). ?flt x" "employees d3 = ?es3"
    using del delete_valid[OF oid, of user_id d2] by (auto split: if_splits)
  have part3: "\<forall>e\<in>set (listed user_id d3). emp_id e \<noteq> str_ObjectId oid"
  proof
    fix e assume "e \<in> set (listed user_id d3)"
    then have "e \<in> serialize ` set (employees d3)"
      by (auto simp: listed_eq)
    then obtain e0 where e0: "e0 \<in> set ?es3" "e = serialize e0"
      unfolding d'(2) by blast
    have "emp_id e0 \<noteq> oid"
      using delete_one_gone[of emp_id "employees d2" ?flt oid e0] inv2 d'(1) e0(1) by auto
    then show "emp_id e \<noteq> str_ObjectId oid"
      by (simp add: e0(2) serialize_def str_ObjectId_inject)
  qed
  from part1 part2 part3 show ?thesis by blast
qed

theorem crud_round_trip_witness:
  "create_employee ''u1'' 1 ann_body empty_db
     = (Returned 201 (Message ''Employee Added''), \<lparr>users = [], employees = [ann_emp]\<rparr>)
   \<and> shown (str_ObjectId 1) ''u1'' ann_body = Some (serialize ann_emp)
   \<and> (\<exists>e. shown (str_ObjectId 1) ''u1'' ann_body = Some e
          \<and> e \<in> set (listed ''u1'' \<lparr>users = [], employees = [ann_emp]\<rparr>))
   \<and> (\<exists>e. shown (str_ObjectId 1) ''u1'' ann_body2 = Some e
          \<and> e \<in> set (listed ''u1'' \<lparr>users = [],
                 employees = [ann_emp\<lparr>emp_designation := ''Director'', emp_salary := 2000\<rparr>]\<rparr>))
   \<and> str_ObjectId 1 \<notin> emp_id ` set (listed ''u1'' empty_db)"
proof -
  let ?d1 = "\<lparr>users = [], employees = [ann_emp]\<rparr>"
  let ?d2 = "\<lparr>users = [], employees = [ann_emp\<lparr>emp_designation := ''Director'', emp_salary := 2000\<rparr>]\<rparr>"
  have inv: "ids_unique empty_db" by (simp add: ids_unique_def empty_db_def)
  have c: "create_employee ''u1'' 1 ann_body empty_db = (Returned 201 (Message ''Employee Added''), ?d1)"
    by code_simp
  have u: "update_employee ''u1'' (str_ObjectId 1) ann_body2 ?d1 = (Returned 200 (Message ''Updated''), ?d2)"
    by code_simp
  have d: "delete_employee ''u1'' (str_ObjectId 1) ?d2 = (Returned 200 (Message ''Deleted''), empty_db)"
    by code_simp
  have s: "shown (str_ObjectId 1) ''u1'' ann_body = Some (serialize ann_emp)"
    by code_simp
  note rt = crud_round_trip[OF inv c u d]
  have p1: "\<exists>e. shown (str_ObjectId 1) ''u1'' ann_body = Some e \<and> e \<in> set (listed ''u1'' ?d1)"
    using rt by (rule conjunct1)
  have p2: "\<exists>e. shown (str_ObjectId 1) ''u1'' ann_body2 = Some e \<and> e \<in> set (listed ''u1'' ?d2)"
    using conjunct1[OF conjunct2[OF rt]] by (elim exE conjE) (rule exI, rule conjI)
  have "\<forall>e\<in>set (listed ''u1'' empty_db). emp_id e \<noteq> str_ObjectId 1"
    using rt by (elim conjE)
  then have p3: "str_ObjectId 1 \<notin> emp_id ` set (listed ''u1'' empty_db)"
    by (auto simp only: image_iff)
  from c s p1 p2 p3 show ?thesis by (intro conjI)
qed

section \<open>Ownership\<close>






section \<open>The duplicate e-mail rule of update\<close>







section \<open>Malformed identifiers\<close>











end
